theory Spec2Isabelle
  imports Main "HOL-Library.Word"
begin

section \<open>ESDM: runtime configuration and DRNG manager\<close>

text \<open>
  A shallow embedding of the runtime configuration facility (``ESDM Runtime
  configuration facility'') and of the DRNG manager (``ESDM DRNG management''), with
  the atomic helpers of \<^verbatim>\<open>atomic.h\<close>.

  Conventions. A C \<^verbatim>\<open>int\<close> or \<^verbatim>\<open>uint32_t\<close> that is stored is a \<open>32 word\<close>, a
  \<^verbatim>\<open>size_t\<close> or \<^verbatim>\<open>ssize_t\<close> a \<open>64 word\<close>; \<open>sint\<close> reads the signed ones. A
  \<^verbatim>\<open>time_t\<close> is an \<open>int\<close>: the code only compares time stamps, adds the reseed
  interval and the per-node offset to them, and tests them against the error value
  \<^verbatim>\<open>(time_t)-1\<close>. A value that an \<^verbatim>\<open>int\<close>-returning callback hands back is an \<open>int\<close>,
  since only its sign is inspected. A pointer that may be \<^verbatim>\<open>NULL\<close> is an \<open>option\<close>.
  What \<^verbatim>\<open>time(NULL)\<close> returns at a call is an argument of the function that makes the
  call. Locks and log messages have no counterpart: every function is modelled as
  one sequential run.
\<close>

type_synonym u8 = "8 word"
type_synonym u32 = "32 word"
type_synonym size_t = "64 word"
type_synonym ssize_t = "64 word"
type_synonym time_t = int

subsection \<open>Build-time constants\<close>

text \<open>
  The header that defines the build-time constants (\<^verbatim>\<open>config.h\<close>) is written when the
  project is configured, so the constants are the fields of a record that every
  function using one of them takes as its first argument.
\<close>

record esdm_consts =
  ESDM_DRNG_SECURITY_STRENGTH_BITS :: u32
  ESDM_DRNG_SECURITY_STRENGTH_BYTES :: u32
  ESDM_DRNG_RESEED_THRESH :: u32
  ESDM_DRNG_MAX_REQSIZE :: u32

text \<open>The values of \<^verbatim>\<open>errno.h\<close> on Linux.\<close>

definition EFAULT :: int where
  "EFAULT = 14"

definition EINVAL :: int where
  "EINVAL = 22"

definition EOPNOTSUPP :: int where
  "EOPNOTSUPP = 95"

definition SSIZE_MAX :: size_t where
  "SSIZE_MAX = 2 ^ 63 - 1"

text \<open>
  Modelled from the spec: the header \<^verbatim>\<open>ret_checkers.h\<close> with the macros \<^verbatim>\<open>CKINT\<close> and
  \<^verbatim>\<open>CKINT_LOG\<close> is missing. \<^verbatim>\<open>CKINT(x)\<close> stores \<^verbatim>\<open>x\<close> in \<^verbatim>\<open>ret\<close> and jumps to the label
  \<^verbatim>\<open>out\<close> when the check fails; following section 4.A (``returns 0 on success,
  negative on failure'') the check fails on a negative value.
\<close>

definition CKINT_fails :: "int \<Rightarrow> bool" where
  "CKINT_fails ret \<longleftrightarrow> ret < 0"

subsection \<open>Runtime configuration\<close>

datatype esdm_config_force_fips =
  esdm_config_force_fips_unset
  | esdm_config_force_fips_disabled
  | esdm_config_force_fips_enabled

record esdm_config =
  esdm_es_cpu_entropy_rate_bits :: u32
  esdm_es_jent_entropy_rate_bits :: u32
  esdm_es_krng_entropy_rate_bits :: u32
  esdm_es_sched_entropy_rate_bits :: u32
  esdm_drng_max_wo_reseed :: u32
  esdm_max_nodes :: u32
  force_fips :: esdm_config_force_fips

text \<open>\<^verbatim>\<open>min_t(uint32_t, ESDM_DRNG_SECURITY_STRENGTH_BITS, val)\<close>: an unsigned minimum.\<close>

definition esdm_config_entropy_rate_max :: "esdm_consts \<Rightarrow> u32 \<Rightarrow> u32" where
  "esdm_config_entropy_rate_max K val = min (ESDM_DRNG_SECURITY_STRENGTH_BITS K) val"

text \<open>
  The getters read the configuration; the setters return the updated one. The
  configuration is a \<^verbatim>\<open>static\<close> variable of its file, so that
  \<^verbatim>\<open>esdm_es_add_entropy()\<close>, which every setter calls last and which lives in another
  file, has no access to it: it does not appear in the model.
\<close>

definition esdm_config_es_cpu_entropy_rate :: "esdm_config \<Rightarrow> u32" where
  "esdm_config_es_cpu_entropy_rate cfg = esdm_es_cpu_entropy_rate_bits cfg"

definition esdm_config_es_cpu_entropy_rate_set :: "esdm_consts \<Rightarrow> u32 \<Rightarrow> esdm_config \<Rightarrow> esdm_config" where
  "esdm_config_es_cpu_entropy_rate_set K ent cfg =
     cfg\<lparr>esdm_es_cpu_entropy_rate_bits := esdm_config_entropy_rate_max K ent\<rparr>"

definition esdm_config_es_jent_entropy_rate :: "esdm_config \<Rightarrow> u32" where
  "esdm_config_es_jent_entropy_rate cfg = esdm_es_jent_entropy_rate_bits cfg"

definition esdm_config_es_jent_entropy_rate_set :: "esdm_consts \<Rightarrow> u32 \<Rightarrow> esdm_config \<Rightarrow> esdm_config" where
  "esdm_config_es_jent_entropy_rate_set K ent cfg =
     cfg\<lparr>esdm_es_jent_entropy_rate_bits := esdm_config_entropy_rate_max K ent\<rparr>"

definition esdm_config_es_krng_entropy_rate :: "esdm_config \<Rightarrow> u32" where
  "esdm_config_es_krng_entropy_rate cfg = esdm_es_krng_entropy_rate_bits cfg"

definition esdm_config_es_krng_entropy_rate_set :: "esdm_consts \<Rightarrow> u32 \<Rightarrow> esdm_config \<Rightarrow> esdm_config" where
  "esdm_config_es_krng_entropy_rate_set K ent cfg =
     cfg\<lparr>esdm_es_krng_entropy_rate_bits := esdm_config_entropy_rate_max K ent\<rparr>"

definition esdm_config_es_sched_entropy_rate :: "esdm_config \<Rightarrow> u32" where
  "esdm_config_es_sched_entropy_rate cfg = esdm_es_sched_entropy_rate_bits cfg"

definition esdm_config_es_sched_entropy_rate_set :: "esdm_consts \<Rightarrow> u32 \<Rightarrow> esdm_config \<Rightarrow> esdm_config" where
  "esdm_config_es_sched_entropy_rate_set K ent cfg =
     cfg\<lparr>esdm_es_sched_entropy_rate_bits := esdm_config_entropy_rate_max K ent\<rparr>"

definition esdm_config_drng_max_wo_reseed :: "esdm_config \<Rightarrow> u32" where
  "esdm_config_drng_max_wo_reseed cfg = esdm_drng_max_wo_reseed cfg"

definition esdm_config_max_nodes :: "esdm_config \<Rightarrow> u32" where
  "esdm_config_max_nodes cfg = esdm_max_nodes cfg"

text \<open>
  \<^verbatim>\<open>esdm_config_online_nodes\<close>: the number of online nodes that the system reports
  (\<^verbatim>\<open>esdm_online_nodes()\<close>, an argument here), capped by the configuration.
\<close>

definition esdm_config_online_nodes :: "esdm_config \<Rightarrow> u32 \<Rightarrow> u32" where
  "esdm_config_online_nodes cfg online = min online (esdm_config_max_nodes cfg)"

subsection \<open>Atomic counters\<close>

text \<open>
  \<^verbatim>\<open>atomic_t\<close> wraps a \<^verbatim>\<open>volatile int\<close>. The operations are the compiler's
  \<^verbatim>\<open>__sync\<close> builtins, which wrap around in two's complement. A read-modify-write
  operation returns its result and the new value of the counter.
\<close>

type_synonym atomic_t = "32 word"

definition ATOMIC_INIT :: "u32 \<Rightarrow> atomic_t" where
  "ATOMIC_INIT i = i"

definition atomic_read :: "atomic_t \<Rightarrow> u32" where
  "atomic_read v = v"

definition atomic_set :: "atomic_t \<Rightarrow> u32 \<Rightarrow> atomic_t" where
  "atomic_set v i = i"

definition atomic_add :: "atomic_t \<Rightarrow> u32 \<Rightarrow> u32 \<times> atomic_t" where
  "atomic_add v i = (v + i, v + i)"

definition atomic_sub_and_test :: "atomic_t \<Rightarrow> u32 \<Rightarrow> bool \<times> atomic_t" where
  "atomic_sub_and_test v i = (v - i = 0, v - i)"

definition atomic_dec_and_test :: "atomic_t \<Rightarrow> bool \<times> atomic_t" where
  "atomic_dec_and_test v = atomic_sub_and_test v 1"

text \<open>
  Modelled from the spec: \<^verbatim>\<open>atomic_read_u32\<close> is missing from the atomic header.
  Section 3 calls \<^verbatim>\<open>requests_since_fully_seeded\<close> an unsigned counter, so the read
  yields the 32 bits of the counter as an unsigned value; the order \<open><\<close> of words is
  the unsigned one.
\<close>

definition atomic_read_u32 :: "atomic_t \<Rightarrow> u32" where
  "atomic_read_u32 v = v"

subsection \<open>DRNG instances\<close>

text \<open>
  The crypto callbacks are function pointers held in descriptors. \<open>'d\<close> is the
  opaque DRBG state that \<^verbatim>\<open>drng->drng\<close> points to. A callback that writes through a
  pointer returns what it wrote: \<open>drng_alloc\<close> gets the old value of \<^verbatim>\<open>drng->drng\<close>
  and the security strength and returns its code and the new value of the pointer;
  \<open>drng_seed\<close> returns its code and the new DRBG state; \<open>drng_generate\<close> returns its
  \<^verbatim>\<open>ssize_t\<close> result, the new DRBG state and the bytes it stored. A selftest pointer
  may be \<^verbatim>\<open>NULL\<close> (\<open>None\<close>); a present one returns its code.
\<close>

record 'd esdm_drng_cb =
  drng_alloc :: "'d option \<Rightarrow> u32 \<Rightarrow> int \<times> 'd option"
  drng_seed :: "'d \<Rightarrow> u8 list \<Rightarrow> int \<times> 'd"
  drng_generate :: "'d option \<Rightarrow> u32 \<Rightarrow> ssize_t \<times> 'd option \<times> u8 list"
  drng_selftest :: "int option"

record esdm_hash_cb =
  hash_selftest :: "int option"

record 'd esdm_drng =
  drng :: "'d option"
  drng_cb :: "'d esdm_drng_cb"
  hash_cb :: esdm_hash_cb
  requests :: atomic_t
  requests_since_fully_seeded :: atomic_t
  last_seeded :: time_t
  fully_seeded :: bool
  force_reseed :: bool

text \<open>
  The per-node array holds pointers, and two slots, or a slot and
  \<^verbatim>\<open>&esdm_drng_init\<close>, may hold the same one. A pointer to a DRNG is therefore either
  the address of the initial DRNG or the address of an instance allocated for a
  node, and the instances of the second kind live in a store.
\<close>

datatype drng_ptr = Ptr_init | Ptr_node nat

text \<open>
  The state of the manager: the availability flag, the initial DRNG, the store of
  the instances allocated for nodes, what \<^verbatim>\<open>esdm_drng_get_instances()\<close> returns (\<^verbatim>\<open>NULL\<close>,
  or the per-node array, whose slot for a node is \<^verbatim>\<open>NULL\<close> or a pointer), and the
  atomic DRNG.
\<close>

record 'd esdm_drng_mgr =
  esdm_avail :: atomic_t
  esdm_drng_init :: "'d esdm_drng"
  node_drng :: "nat \<Rightarrow> 'd esdm_drng"
  esdm_drng_instances :: "(nat \<rightharpoonup> drng_ptr) option"
  esdm_drng_atomic :: "'d esdm_drng"

text \<open>Reading and writing through a pointer.\<close>

definition drng_at :: "'d esdm_drng_mgr \<Rightarrow> drng_ptr \<Rightarrow> 'd esdm_drng" where
  "drng_at s p = (case p of Ptr_init \<Rightarrow> esdm_drng_init s | Ptr_node a \<Rightarrow> node_drng s a)"

definition drng_modify ::
  "drng_ptr \<Rightarrow> ('d esdm_drng \<Rightarrow> 'd esdm_drng) \<Rightarrow> 'd esdm_drng_mgr \<Rightarrow> 'd esdm_drng_mgr" where
  "drng_modify p f s =
     (case p of
        Ptr_init \<Rightarrow> s\<lparr>esdm_drng_init := f (esdm_drng_init s)\<rparr>
      | Ptr_node a \<Rightarrow> s\<lparr>node_drng := (node_drng s)(a := f (node_drng s a))\<rparr>)"

text \<open>
  The initial value of the global variable \<^verbatim>\<open>esdm_drng_reseed_max_time\<close>. A function
  that reads the variable takes its current value as an argument.
\<close>

definition esdm_drng_reseed_max_time_init :: int where
  "esdm_drng_reseed_max_time_init = 600"

definition esdm_get_available :: "atomic_t \<Rightarrow> bool" where
  "esdm_get_available avail \<longleftrightarrow> atomic_read avail \<noteq> 0"

definition esdm_drng_init_instance :: drng_ptr where
  "esdm_drng_init_instance = Ptr_init"

text \<open>\<^verbatim>\<open>esdm_drng_node_instance\<close>; \<open>node\<close> is what \<^verbatim>\<open>esdm_config_curr_node()\<close> returns.\<close>

definition esdm_drng_node_instance :: "'d esdm_drng_mgr \<Rightarrow> nat \<Rightarrow> drng_ptr" where
  "esdm_drng_node_instance s node =
     (case esdm_drng_instances s of
        None \<Rightarrow> esdm_drng_init_instance
      | Some arr \<Rightarrow>
          (case arr node of
             None \<Rightarrow> esdm_drng_init_instance
           | Some p \<Rightarrow> p))"

definition esdm_drng_reset :: "esdm_consts \<Rightarrow> 'd esdm_drng \<Rightarrow> time_t \<Rightarrow> 'd esdm_drng" where
  "esdm_drng_reset K d now =
     d\<lparr>requests := atomic_set (requests d) (ESDM_DRNG_RESEED_THRESH K),
       requests_since_fully_seeded := atomic_set (requests_since_fully_seeded d) 0,
       last_seeded := now,
       fully_seeded := False,
       force_reseed := True\<rparr>"

text \<open>
  \<^verbatim>\<open>esdm_drng_alloc_common\<close>: both pointers may be \<^verbatim>\<open>NULL\<close>. The result is the return
  code and the instance behind \<^verbatim>\<open>drng\<close>.
\<close>

definition esdm_drng_alloc_common ::
  "esdm_consts \<Rightarrow> 'd esdm_drng option \<Rightarrow> 'd esdm_drng_cb option \<Rightarrow> time_t
    \<Rightarrow> int \<times> 'd esdm_drng option" where
  "esdm_drng_alloc_common K drng_ptr cb_ptr now =
     (case drng_ptr of
        None \<Rightarrow> (- EINVAL, drng_ptr)
      | Some d \<Rightarrow>
          (case cb_ptr of
             None \<Rightarrow> (- EINVAL, drng_ptr)
           | Some cb \<Rightarrow>
               (let d1 = d\<lparr>drng_cb := cb\<rparr>;
                    (ret, p) = drng_alloc cb (drng d1) (ESDM_DRNG_SECURITY_STRENGTH_BYTES K);
                    d2 = d1\<lparr>drng := p\<rparr>
                in if CKINT_fails ret then (ret, Some d2)
                   else (ret, Some (esdm_drng_reset K d2 now)))))"

text \<open>
  \<^verbatim>\<open>esdm_drng_mgr_selftest\<close>: \<^verbatim>\<open>ret\<close> starts at 0, a missing selftest leaves it as it
  is, and \<^verbatim>\<open>CKINT_LOG\<close> leaves for \<^verbatim>\<open>out\<close> as \<^verbatim>\<open>CKINT\<close> does.
\<close>

definition esdm_drng_mgr_selftest :: "'d esdm_drng_mgr \<Rightarrow> nat \<Rightarrow> int" where
  "esdm_drng_mgr_selftest s node =
     (let d = drng_at s (esdm_drng_node_instance s node);
          ret0 = 0;
          ret1 = (case hash_selftest (hash_cb d) of Some r \<Rightarrow> r | None \<Rightarrow> ret0)
      in if CKINT_fails ret1 then ret1
         else
           (let ret2 = (case drng_selftest (drng_cb d) of Some r \<Rightarrow> r | None \<Rightarrow> ret1)
            in ret2))"

text \<open>
  \<^verbatim>\<open>esdm_drng_mgr_initalize\<close>; \<open>default_cb\<close> is \<^verbatim>\<open>esdm_default_drng_cb\<close>, \<open>now\<close> the time
  that \<^verbatim>\<open>esdm_drng_reset\<close> reads. In one sequential run the second availability test,
  under the lock, gives what the first one gave.
\<close>

definition esdm_drng_mgr_initalize ::
  "esdm_consts \<Rightarrow> 'd esdm_drng_cb \<Rightarrow> nat \<Rightarrow> time_t \<Rightarrow> 'd esdm_drng_mgr
    \<Rightarrow> int \<times> 'd esdm_drng_mgr" where
  "esdm_drng_mgr_initalize K default_cb node now s =
     (if esdm_get_available (esdm_avail s) then (0, s)
      else
        (case esdm_drng_alloc_common K (Some (esdm_drng_init s)) (Some default_cb) now of
           (ret, drng_ptr) \<Rightarrow>
             (let s1 = (case drng_ptr of
                          None \<Rightarrow> s
                        | Some d \<Rightarrow> s\<lparr>esdm_drng_init := d\<rparr>)
              in if CKINT_fails ret then (ret, s1)
                 else
                   (let s2 = s1\<lparr>esdm_avail := atomic_set (esdm_avail s1) 1\<rparr>
                    in (esdm_drng_mgr_selftest s2 node, s2)))))"

subsection \<open>Random number generation\<close>

definition esdm_time_after :: "time_t \<Rightarrow> time_t \<Rightarrow> bool" where
  "esdm_time_after cur base =
     (if cur = - 1 then False
      else if base = - 1 then True
      else cur > base)"

text \<open>\<open>cur\<close> is what \<^verbatim>\<open>time(NULL)\<close> returns.\<close>

definition esdm_time_after_now :: "time_t \<Rightarrow> time_t \<Rightarrow> time_t" where
  "esdm_time_after_now cur base =
     (if cur = - 1 then 0
      else if esdm_time_after cur base then cur - base else 0)"

text \<open>
  \<^verbatim>\<open>esdm_drng_inject\<close>; \<open>now\<close> is the time read for \<^verbatim>\<open>last_seeded\<close>. The seed callback
  works on the DRBG state in place, whatever it returns.
\<close>

definition esdm_drng_inject ::
  "esdm_consts \<Rightarrow> 'd esdm_drng \<Rightarrow> u8 list \<Rightarrow> bool \<Rightarrow> time_t \<Rightarrow> 'd esdm_drng" where
  "esdm_drng_inject K d inbuf fully_seeded_flag now =
     (case drng d of
        None \<Rightarrow> d
      | Some st \<Rightarrow>
          (case drng_seed (drng_cb d) st inbuf of
             (ret, st') \<Rightarrow>
               (let d1 = d\<lparr>drng := Some st'\<rparr>
                in if ret < 0 then d1\<lparr>force_reseed := True\<rparr>
                   else
                     (let gc = ESDM_DRNG_RESEED_THRESH K - atomic_read (requests d1);
                          d2 = (if fully_seeded_flag
                                then d1\<lparr>requests_since_fully_seeded :=
                                        atomic_set (requests_since_fully_seeded d1) 0\<rparr>
                                else d1\<lparr>requests_since_fully_seeded :=
                                        snd (atomic_add (requests_since_fully_seeded d1) gc)\<rparr>);
                          d3 = d2\<lparr>last_seeded := now,
                                  requests := atomic_set (requests d2) (ESDM_DRNG_RESEED_THRESH K),
                                  force_reseed := False\<rparr>
                      in if \<not> fully_seeded d3 then d3\<lparr>fully_seeded := fully_seeded_flag\<rparr>
                         else d3))))"

text \<open>
  The entropy-source manager and the atomic DRNG live in files of their own,
  outside this development. What they hand to one seeding operation is a record:
  the seed buffer that
  \<^verbatim>\<open>esdm_fill_seed_buffer\<close> leaves (it is asked for an amount that depends on
  \<^verbatim>\<open>drng->fully_seeded\<close>), the verdict of \<^verbatim>\<open>esdm_fully_seeded_eb\<close> on it, the time that
  the injection reads, and what \<^verbatim>\<open>esdm_drng_atomic_seed_drng\<close>, which draws the seed of
  the atomic DRNG from the regular one, does to the DRBG state of the regular one.
  \<^verbatim>\<open>esdm_init_ops\<close> works on the state of the entropy-source manager alone.
\<close>

record 'd seed_env =
  esdm_fill_seed_buffer :: "bool \<Rightarrow> u8 list"
  esdm_fully_seeded_eb :: "bool \<Rightarrow> u8 list \<Rightarrow> bool"
  seed_time :: time_t
  esdm_drng_atomic_seed_drng :: "'d option \<Rightarrow> 'd option"

definition esdm_drng_seed_es :: "esdm_consts \<Rightarrow> 'd seed_env \<Rightarrow> 'd esdm_drng \<Rightarrow> 'd esdm_drng" where
  "esdm_drng_seed_es K E d =
     (let seedbuf = esdm_fill_seed_buffer E (fully_seeded d)
      in esdm_drng_inject K d seedbuf (esdm_fully_seeded_eb E (fully_seeded d) seedbuf)
           (seed_time E))"

text \<open>
  \<^verbatim>\<open>esdm_drng_seed\<close>: while the manager is not available, only the atomic DRNG or the
  state of the entropy-source manager is touched, and the instance stays as it is.
\<close>

definition esdm_drng_seed ::
  "esdm_consts \<Rightarrow> atomic_t \<Rightarrow> 'd seed_env \<Rightarrow> 'd esdm_drng \<Rightarrow> 'd esdm_drng" where
  "esdm_drng_seed K avail E d =
     (if esdm_get_available avail then
        (let d1 = esdm_drng_seed_es K E d
         in d1\<lparr>drng := esdm_drng_atomic_seed_drng E (drng d1)\<rparr>)
      else d)"

text \<open>
  \<^verbatim>\<open>esdm_drng_seed_work_one\<close>: \<^verbatim>\<open>node * 60\<close> is a product of type \<^verbatim>\<open>uint32_t\<close>, which
  wraps around, and is then added to the \<^verbatim>\<open>time_t\<close>.
\<close>

definition esdm_drng_seed_work_one ::
  "esdm_consts \<Rightarrow> atomic_t \<Rightarrow> 'd seed_env \<Rightarrow> 'd esdm_drng \<Rightarrow> u32 \<Rightarrow> 'd esdm_drng" where
  "esdm_drng_seed_work_one K avail E d node =
     (let d1 = esdm_drng_seed K avail E d
      in if fully_seeded d1 then d1\<lparr>last_seeded := last_seeded d1 + uint (node * 60)\<rparr>
         else d1)"

text \<open>
  Modelled from the spec: the macro \<^verbatim>\<open>for_each_online_node\<close> of \<^verbatim>\<open>esdm_node.h\<close> is
  missing. By sections 3 and 4.I the per-node array is indexed by the online node
  ids below \<^verbatim>\<open>esdm_config_online_nodes()\<close>: the loop runs its body for the nodes
  \<open>0, \<dots>, n - 1\<close> in this order.
\<close>

definition for_each_online_node :: "nat \<Rightarrow> (nat \<Rightarrow> 's \<Rightarrow> 's) \<Rightarrow> 's \<Rightarrow> 's" where
  "for_each_online_node n body s = fold body [0..<n] s"

text \<open>
  \<^verbatim>\<open>esdm_drng_force_reseed\<close>; \<open>online\<close> is what \<^verbatim>\<open>esdm_online_nodes()\<close> returns, and
  \<open>atomic_force_reseed\<close> is \<^verbatim>\<open>esdm_drng_atomic_force_reseed\<close>, a function of the atomic
  DRNG's own file, outside this development.
\<close>

definition force_reseed_node ::
  "(nat \<rightharpoonup> drng_ptr) \<Rightarrow> nat \<Rightarrow> 'd esdm_drng_mgr \<Rightarrow> 'd esdm_drng_mgr" where
  "force_reseed_node arr node s =
     (case arr node of
        None \<Rightarrow> s
      | Some p \<Rightarrow> drng_modify p (\<lambda>d. d\<lparr>force_reseed := fully_seeded d\<rparr>) s)"

definition esdm_drng_force_reseed ::
  "esdm_consts \<Rightarrow> esdm_config \<Rightarrow> u32 \<Rightarrow> ('d esdm_drng \<Rightarrow> 'd esdm_drng) \<Rightarrow> 'd esdm_drng_mgr
    \<Rightarrow> 'd esdm_drng_mgr" where
  "esdm_drng_force_reseed K cfg online atomic_force_reseed s =
     (let init = esdm_drng_init s;
          only_init = s\<lparr>esdm_drng_init := init\<lparr>force_reseed := fully_seeded init\<rparr>\<rparr>
      in case esdm_drng_instances s of
           None \<Rightarrow> only_init
         | Some arr \<Rightarrow>
             if atomic_read_u32 (requests_since_fully_seeded init) > ESDM_DRNG_RESEED_THRESH K
             then only_init
             else
               (let s1 = for_each_online_node (unat (esdm_config_online_nodes cfg online))
                           (force_reseed_node arr) s
                in s1\<lparr>esdm_drng_atomic := atomic_force_reseed (esdm_drng_atomic s1)\<rparr>))"

text \<open>
  \<^verbatim>\<open>esdm_drng_must_reseed\<close>: the counter is decremented in every call, since the
  decrement is the first operand of \<^verbatim>\<open>||\<close>; \<open>now\<close> is the time that the third operand
  reads when it is evaluated. The result is the verdict and the instance.
\<close>

definition esdm_drng_must_reseed :: "int \<Rightarrow> 'd esdm_drng \<Rightarrow> time_t \<Rightarrow> bool \<times> 'd esdm_drng" where
  "esdm_drng_must_reseed max_time d now =
     (case atomic_dec_and_test (requests d) of
        (zero, r) \<Rightarrow>
          (let d' = d\<lparr>requests := r\<rparr>
           in (zero \<or> force_reseed d'
                 \<or> esdm_time_after_now now (last_seeded d' + max_time) \<noteq> 0,
               d')))"

text \<open>
  Modelled from the spec: \<^verbatim>\<open>esdm_unset_fully_seeded\<close> is missing; it is defined with
  the entropy-source manager. By section 4.D the instance ``is demoted to
  \<^verbatim>\<open>fully_seeded=false\<close>''; what the function does beyond the instance is left out.
\<close>

definition esdm_unset_fully_seeded :: "'d esdm_drng \<Rightarrow> 'd esdm_drng" where
  "esdm_unset_fully_seeded d = d\<lparr>fully_seeded := False\<rparr>"

text \<open>
  What the surroundings hand to one round of the loop of \<^verbatim>\<open>esdm_drng_get\<close>: the time
  that \<^verbatim>\<open>esdm_drng_must_reseed\<close> reads, the result of \<^verbatim>\<open>esdm_pool_trylock()\<close> (non-zero
  when the pool lock is taken), and the material of a seeding operation.
\<close>

record 'd chunk_env =
  reseed_time :: time_t
  esdm_pool_trylock :: int
  seeding :: "'d seed_env"

text \<open>
  The loop of \<^verbatim>\<open>esdm_drng_get\<close>. \<open>i\<close> counts the rounds, \<open>out\<close> collects the bytes that
  the generate callback stored at \<^verbatim>\<open>outbuf + processed\<close>. A callback that returns more
  than it was asked for makes \<^verbatim>\<open>outbuflen\<close> wrap around, so the loop need not end:
  the result is \<open>None\<close> when it does not.
\<close>

partial_function (option) esdm_drng_get_loop ::
  "esdm_consts \<Rightarrow> atomic_t \<Rightarrow> int \<Rightarrow> (nat \<Rightarrow> 'd chunk_env) \<Rightarrow> nat \<Rightarrow> 'd esdm_drng \<Rightarrow> size_t
    \<Rightarrow> ssize_t \<Rightarrow> u8 list \<Rightarrow> (int \<times> 'd esdm_drng \<times> u8 list) option" where
  "esdm_drng_get_loop K avail max_time E i d outbuflen processed out =
     (if outbuflen = 0 then Some (sint processed, d, out)
      else
        (let todo = min (ucast outbuflen) (ESDM_DRNG_MAX_REQSIZE K);
             (must, d1) = esdm_drng_must_reseed max_time d (reseed_time (E i));
             d2 = (if must then
                     (if esdm_pool_trylock (E i) \<noteq> 0 then d1\<lparr>force_reseed := True\<rparr>
                      else esdm_drng_seed K avail (seeding (E i)) d1)
                   else d1);
             (ret, st, bytes) = drng_generate (drng_cb d2) (drng d2) todo;
             d3 = d2\<lparr>drng := st\<rparr>
         in if sint ret \<le> 0 then Some (- EFAULT, d3, out @ bytes)
            else esdm_drng_get_loop K avail max_time E (Suc i) d3 (outbuflen - ret)
                   (processed + ret) (out @ bytes)))"

declare esdm_drng_get_loop.simps [code]

text \<open>
  \<^verbatim>\<open>esdm_drng_get\<close>; \<open>outbuf\<close> is the address of the output buffer. The result is the
  return value, the instance and the bytes stored in the buffer.
\<close>

definition esdm_drng_get ::
  "esdm_consts \<Rightarrow> esdm_config \<Rightarrow> atomic_t \<Rightarrow> int \<Rightarrow> (nat \<Rightarrow> 'd chunk_env) \<Rightarrow> 'd esdm_drng
    \<Rightarrow> nat option \<Rightarrow> size_t \<Rightarrow> (int \<times> 'd esdm_drng \<times> u8 list) option" where
  "esdm_drng_get K cfg avail max_time E d outbuf outbuflen =
     (if outbuf = None \<or> outbuflen = 0 then Some (0, d, [])
      else if \<not> esdm_get_available avail then Some (- EOPNOTSUPP, d, [])
      else
        (let outbuflen' = min outbuflen SSIZE_MAX;
             d' = (if atomic_read_u32 (requests_since_fully_seeded d)
                        > esdm_config_drng_max_wo_reseed cfg
                   then esdm_unset_fully_seeded d else d)
         in esdm_drng_get_loop K avail max_time E 0 d' outbuflen' 0 []))"

subsection \<open>Sequences of operations on one instance\<close>

text \<open>
  The three operations that write \<^verbatim>\<open>requests\<close>, each with the inputs of its call, and
  a run of a sequence of them.
\<close>

datatype drng_op =
  Op_reset time_t
  | Op_inject "u8 list" bool time_t
  | Op_must_reseed int time_t

fun drng_step :: "esdm_consts \<Rightarrow> drng_op \<Rightarrow> 'd esdm_drng \<Rightarrow> 'd esdm_drng" where
  "drng_step K (Op_reset now) d = esdm_drng_reset K d now"
| "drng_step K (Op_inject inbuf fs now) d = esdm_drng_inject K d inbuf fs now"
| "drng_step K (Op_must_reseed max_time now) d = snd (esdm_drng_must_reseed max_time d now)"

definition drng_run :: "esdm_consts \<Rightarrow> drng_op list \<Rightarrow> 'd esdm_drng \<Rightarrow> 'd esdm_drng" where
  "drng_run K ops d = fold (drng_step K) ops d"

text \<open>
  A seed is successful on an instance when its DRBG state is allocated and the seed
  callback returns a value \<open>\<ge> 0\<close> on the buffer: the case in which
  \<^verbatim>\<open>esdm_drng_inject\<close> takes its \<^verbatim>\<open>else\<close> branch.
\<close>

definition seed_accepted :: "'d esdm_drng \<Rightarrow> u8 list \<Rightarrow> bool" where
  "seed_accepted d inbuf =
     (case drng d of
        None \<Rightarrow> False
      | Some st \<Rightarrow> 0 \<le> fst (drng_seed (drng_cb d) st inbuf))"

text \<open>The \<^verbatim>\<open>force_reseed\<close> flag of the per-node DRNG of a node, if there is one.\<close>

definition node_force_reseed :: "'d esdm_drng_mgr \<Rightarrow> nat \<Rightarrow> bool option" where
  "node_force_reseed s node =
     (case esdm_drng_instances s of
        None \<Rightarrow> None
      | Some arr \<Rightarrow> map_option (\<lambda>p. force_reseed (drng_at s p)) (arr node))"

subsection \<open>Sample values\<close>

text \<open>
  Concrete inputs on which the functions are evaluated below: build-time constants,
  a DRBG whose state counts the bytes it was seeded with and whose seed callback
  returns a given code, an instance in use, a configuration, and the surroundings
  of a seeding operation and of a round of the generate loop.
\<close>

definition sample_consts :: esdm_consts where
  "sample_consts =
     \<lparr>ESDM_DRNG_SECURITY_STRENGTH_BITS = 256, ESDM_DRNG_SECURITY_STRENGTH_BYTES = 32,
      ESDM_DRNG_RESEED_THRESH = 1048576, ESDM_DRNG_MAX_REQSIZE = 4096\<rparr>"

definition sample_cb :: "int \<Rightarrow> nat esdm_drng_cb" where
  "sample_cb seed_ret =
     \<lparr>drng_alloc = (\<lambda>p n. (0, Some 0)),
      drng_seed = (\<lambda>st buf. (seed_ret, st + length buf)),
      drng_generate = (\<lambda>p n. (ucast n, map_option Suc p, replicate (unat n) 0)),
      drng_selftest = Some 0\<rparr>"

definition sample_drng :: "int \<Rightarrow> nat esdm_drng" where
  "sample_drng seed_ret =
     \<lparr>drng = Some 0, drng_cb = sample_cb seed_ret, hash_cb = \<lparr>hash_selftest = Some 0\<rparr>,
      requests = 4000, requests_since_fully_seeded = 10, last_seeded = 1000,
      fully_seeded = True, force_reseed = False\<rparr>"

definition sample_config :: esdm_config where
  "sample_config =
     \<lparr>esdm_es_cpu_entropy_rate_bits = 8, esdm_es_jent_entropy_rate_bits = 16,
      esdm_es_krng_entropy_rate_bits = 128, esdm_es_sched_entropy_rate_bits = 0,
      esdm_drng_max_wo_reseed = 9, esdm_max_nodes = 0xffffffff,
      force_fips = esdm_config_force_fips_unset\<rparr>"

definition sample_seed_env :: "bool \<Rightarrow> time_t \<Rightarrow> nat seed_env" where
  "sample_seed_env full t =
     \<lparr>esdm_fill_seed_buffer = (\<lambda>fs. replicate 4 1),
      esdm_fully_seeded_eb = (\<lambda>fs buf. full),
      seed_time = t,
      esdm_drng_atomic_seed_drng = (\<lambda>p. p)\<rparr>"

definition sample_chunk_env :: "nat \<Rightarrow> nat chunk_env" where
  "sample_chunk_env i =
     \<lparr>reseed_time = 1100 + int i, esdm_pool_trylock = 0,
      seeding = sample_seed_env True (1100 + int i)\<rparr>"

text \<open>
  A manager before its initialisation, with a given hash selftest, and one with a
  per-node array: the slot of node 0 points to the initial DRNG, which is fully
  seeded, the slot of node 1 to a freshly reset instance of its own, and node 2
  has no DRNG.
\<close>

definition sample_mgr :: "int option \<Rightarrow> nat esdm_drng_mgr" where
  "sample_mgr hash_ret =
     \<lparr>esdm_avail = ATOMIC_INIT 0,
      esdm_drng_init = (sample_drng 0)\<lparr>drng := None, hash_cb := \<lparr>hash_selftest = hash_ret\<rparr>\<rparr>,
      node_drng = (\<lambda>a. sample_drng 0),
      esdm_drng_instances = None,
      esdm_drng_atomic = sample_drng 0\<rparr>"

definition sample_nodes :: "nat \<rightharpoonup> drng_ptr" where
  "sample_nodes = [0 \<mapsto> Ptr_init, 1 \<mapsto> Ptr_node 1]"

definition sample_node_mgr :: "nat esdm_drng_mgr" where
  "sample_node_mgr =
     \<lparr>esdm_avail = ATOMIC_INIT 1,
      esdm_drng_init = (sample_drng 0)\<lparr>requests_since_fully_seeded := 0\<rparr>,
      node_drng = (\<lambda>a. esdm_drng_reset sample_consts (sample_drng 0) 1000),
      esdm_drng_instances = Some sample_nodes,
      esdm_drng_atomic = sample_drng 0\<rparr>"

section \<open>Properties\<close>

subsection \<open>Configuration\<close>

text \<open>
  Claim C8. For every 32-bit value \<open>v\<close> and each of the four per-source entropy-rate
  slots (cpu, jent, krng, sched), setting the rate to \<open>v\<close> and reading it back gives
  the minimum of \<open>v\<close> and \<^verbatim>\<open>ESDM_DRNG_SECURITY_STRENGTH_BITS\<close>.
\<close>

theorem entropy_rate_set_get_clamps:
  "esdm_config_es_cpu_entropy_rate (esdm_config_es_cpu_entropy_rate_set K v cfg)
     = min v (ESDM_DRNG_SECURITY_STRENGTH_BITS K)
   \<and> esdm_config_es_jent_entropy_rate (esdm_config_es_jent_entropy_rate_set K v cfg)
     = min v (ESDM_DRNG_SECURITY_STRENGTH_BITS K)
   \<and> esdm_config_es_krng_entropy_rate (esdm_config_es_krng_entropy_rate_set K v cfg)
     = min v (ESDM_DRNG_SECURITY_STRENGTH_BITS K)
   \<and> esdm_config_es_sched_entropy_rate (esdm_config_es_sched_entropy_rate_set K v cfg)
     = min v (ESDM_DRNG_SECURITY_STRENGTH_BITS K)"
proof -
  have clamp: "esdm_config_entropy_rate_max K v = min v (ESDM_DRNG_SECURITY_STRENGTH_BITS K)"
    by (simp add: esdm_config_entropy_rate_max_def min.commute)
  have cpu: "esdm_config_es_cpu_entropy_rate (esdm_config_es_cpu_entropy_rate_set K v cfg)
      = esdm_config_entropy_rate_max K v"
    by (simp add: esdm_config_es_cpu_entropy_rate_def esdm_config_es_cpu_entropy_rate_set_def)
  have jent: "esdm_config_es_jent_entropy_rate (esdm_config_es_jent_entropy_rate_set K v cfg)
      = esdm_config_entropy_rate_max K v"
    by (simp add: esdm_config_es_jent_entropy_rate_def esdm_config_es_jent_entropy_rate_set_def)
  have krng: "esdm_config_es_krng_entropy_rate (esdm_config_es_krng_entropy_rate_set K v cfg)
      = esdm_config_entropy_rate_max K v"
    by (simp add: esdm_config_es_krng_entropy_rate_def esdm_config_es_krng_entropy_rate_set_def)
  have sched: "esdm_config_es_sched_entropy_rate (esdm_config_es_sched_entropy_rate_set K v cfg)
      = esdm_config_entropy_rate_max K v"
    by (simp add: esdm_config_es_sched_entropy_rate_def esdm_config_es_sched_entropy_rate_set_def)
  show ?thesis
    unfolding cpu jent krng sched clamp by simp
qed

subsection \<open>Seed injection\<close>

text \<open>
  Claim C3. For a DRNG whose DRBG state is allocated, when the seed callback called
  by \<^verbatim>\<open>esdm_drng_inject\<close> returns a value \<open>\<ge> 0\<close>, then afterwards \<^verbatim>\<open>requests\<close> is
  \<^verbatim>\<open>ESDM_DRNG_RESEED_THRESH\<close>, \<^verbatim>\<open>last_seeded\<close> is the current time, \<^verbatim>\<open>force_reseed\<close> is
  false, \<^verbatim>\<open>requests_since_fully_seeded\<close> is 0 when the \<^verbatim>\<open>fully_seeded\<close> argument is true
  and has otherwise grown by the number of generate calls since the last seed (the
  threshold minus the former value of \<^verbatim>\<open>requests\<close>, in 32-bit arithmetic), and
  \<^verbatim>\<open>fully_seeded\<close> is true exactly when it was true before or the argument is true.
\<close>

theorem inject_success:
  assumes "drng d = Some st"
    and "0 \<le> fst (drng_seed (drng_cb d) st inbuf)"
  shows "requests (esdm_drng_inject K d inbuf flag now) = ESDM_DRNG_RESEED_THRESH K
    \<and> last_seeded (esdm_drng_inject K d inbuf flag now) = now
    \<and> force_reseed (esdm_drng_inject K d inbuf flag now) = False
    \<and> requests_since_fully_seeded (esdm_drng_inject K d inbuf flag now)
        = (if flag then 0
           else requests_since_fully_seeded d + (ESDM_DRNG_RESEED_THRESH K - requests d))
    \<and> fully_seeded (esdm_drng_inject K d inbuf flag now) = (fully_seeded d \<or> flag)"
  using assms
  by (auto simp: esdm_drng_inject_def Let_def atomic_set_def atomic_add_def atomic_read_def
        split: prod.splits)

theorem inject_success_witness:
  "drng (sample_drng 0) = Some 0
   \<and> 0 \<le> fst (drng_seed (drng_cb (sample_drng 0)) 0 [1, 2, 3])
   \<and> requests (esdm_drng_inject sample_consts (sample_drng 0) [1, 2, 3] False 2000) = 1048576
   \<and> last_seeded (esdm_drng_inject sample_consts (sample_drng 0) [1, 2, 3] False 2000) = 2000
   \<and> force_reseed (esdm_drng_inject sample_consts (sample_drng 0) [1, 2, 3] False 2000) = False
   \<and> requests_since_fully_seeded
        (esdm_drng_inject sample_consts (sample_drng 0) [1, 2, 3] False 2000) = 1044586
   \<and> fully_seeded (esdm_drng_inject sample_consts (sample_drng 0) [1, 2, 3] False 2000) = True"
  using inject_success [of "sample_drng 0" 0 "[1, 2, 3]" sample_consts False 2000]
  by (simp add: sample_drng_def sample_cb_def sample_consts_def)

text \<open>
  Claim C4. For a DRNG whose DRBG state is allocated, when the seed callback called
  by \<^verbatim>\<open>esdm_drng_inject\<close> returns a negative value, then afterwards \<^verbatim>\<open>force_reseed\<close> is
  true and \<^verbatim>\<open>fully_seeded\<close>, \<^verbatim>\<open>requests\<close>, \<^verbatim>\<open>requests_since_fully_seeded\<close> and
  \<^verbatim>\<open>last_seeded\<close> are what they were: one failed seed does not demote the instance.
\<close>

theorem inject_failure:
  assumes "drng d = Some st"
    and "fst (drng_seed (drng_cb d) st inbuf) < 0"
  shows "force_reseed (esdm_drng_inject K d inbuf flag now) = True
    \<and> fully_seeded (esdm_drng_inject K d inbuf flag now) = fully_seeded d
    \<and> requests (esdm_drng_inject K d inbuf flag now) = requests d
    \<and> requests_since_fully_seeded (esdm_drng_inject K d inbuf flag now)
        = requests_since_fully_seeded d
    \<and> last_seeded (esdm_drng_inject K d inbuf flag now) = last_seeded d"
  using assms
  by (auto simp: esdm_drng_inject_def Let_def split: prod.splits)

theorem inject_failure_witness:
  "drng (sample_drng (- 5)) = Some 0
   \<and> fst (drng_seed (drng_cb (sample_drng (- 5))) 0 [7]) < 0
   \<and> force_reseed (esdm_drng_inject sample_consts (sample_drng (- 5)) [7] True 2000) = True
   \<and> fully_seeded (esdm_drng_inject sample_consts (sample_drng (- 5)) [7] True 2000) = True
   \<and> requests (esdm_drng_inject sample_consts (sample_drng (- 5)) [7] True 2000) = 4000
   \<and> requests_since_fully_seeded
        (esdm_drng_inject sample_consts (sample_drng (- 5)) [7] True 2000) = 10
   \<and> last_seeded (esdm_drng_inject sample_consts (sample_drng (- 5)) [7] True 2000) = 1000"
  using inject_failure [of "sample_drng (- 5)" 0 "[7]" sample_consts True 2000]
  by (simp add: sample_drng_def sample_cb_def)

subsection \<open>The reseed test\<close>

text \<open>
  Claim C5. \<^verbatim>\<open>esdm_drng_must_reseed\<close> returns true if and only if decrementing
  \<^verbatim>\<open>requests\<close> reaches zero, or \<^verbatim>\<open>force_reseed\<close> is set, or the current time exceeds
  \<^verbatim>\<open>last_seeded + esdm_drng_reseed_max_time\<close>; the interval is 600 seconds at start.
  The time stamps are values that \<^verbatim>\<open>time()\<close> can return: seconds since the Epoch, or
  the error value -1, on which the time test of the code gives what the comparison
  gives.
\<close>

theorem must_reseed_iff:
  assumes "- 1 \<le> now"
    and "- 1 \<le> last_seeded d + max_time"
  shows "(fst (esdm_drng_must_reseed max_time d now)
           \<longleftrightarrow> (requests d - 1 = 0 \<or> force_reseed d \<or> now > last_seeded d + max_time))
    \<and> esdm_drng_reseed_max_time_init = 600"
  using assms
  by (auto simp: esdm_drng_must_reseed_def atomic_dec_and_test_def atomic_sub_and_test_def
        esdm_time_after_now_def esdm_time_after_def esdm_drng_reseed_max_time_init_def Let_def
        split: prod.splits if_splits)

theorem must_reseed_iff_witness:
  "(- 1 :: int) \<le> 1700
   \<and> - 1 \<le> last_seeded (sample_drng 0) + esdm_drng_reseed_max_time_init
   \<and> fst (esdm_drng_must_reseed esdm_drng_reseed_max_time_init (sample_drng 0) 1700)
   \<and> requests (sample_drng 0) - 1 \<noteq> 0
   \<and> \<not> force_reseed (sample_drng 0)
   \<and> 1700 > last_seeded (sample_drng 0) + esdm_drng_reseed_max_time_init"
  using must_reseed_iff [of 1700 "sample_drng 0" esdm_drng_reseed_max_time_init]
  by (simp add: sample_drng_def esdm_drng_reseed_max_time_init_def)

subsection \<open>Generating random numbers\<close>

text \<open>
  Claim C6, as the code has it. For a request with a buffer and a non-zero length,
  made while the manager is available: when \<^verbatim>\<open>requests_since_fully_seeded\<close> is strictly greater than
  \<^verbatim>\<open>esdm_config_drng_max_wo_reseed()\<close> at the entry of \<^verbatim>\<open>esdm_drng_get\<close>, the generate
  loop starts, with nothing generated yet, on the instance with \<^verbatim>\<open>fully_seeded\<close>
  cleared; when the counter equals the limit, it starts on the instance as it is.
\<close>

theorem get_demotes_before_generating:
  assumes "outbuf \<noteq> None"
    and "outbuflen \<noteq> 0"
    and "esdm_get_available avail"
  shows "(requests_since_fully_seeded d > esdm_config_drng_max_wo_reseed cfg \<longrightarrow>
           esdm_drng_get K cfg avail max_time E d outbuf outbuflen
             = esdm_drng_get_loop K avail max_time E 0 (d\<lparr>fully_seeded := False\<rparr>)
                 (min outbuflen SSIZE_MAX) 0 [])
       \<and> (requests_since_fully_seeded d = esdm_config_drng_max_wo_reseed cfg \<longrightarrow>
           esdm_drng_get K cfg avail max_time E d outbuf outbuflen
             = esdm_drng_get_loop K avail max_time E 0 d (min outbuflen SSIZE_MAX) 0 [])"
  using assms
  by (auto simp: esdm_drng_get_def Let_def atomic_read_u32_def esdm_unset_fully_seeded_def)

theorem get_demotes_before_generating_witness:
  "Some (0 :: nat) \<noteq> None
   \<and> (16 :: size_t) \<noteq> 0
   \<and> esdm_get_available 1
   \<and> requests_since_fully_seeded (sample_drng 0) > esdm_config_drng_max_wo_reseed sample_config
   \<and> fully_seeded (sample_drng 0)
   \<and> esdm_drng_get sample_consts sample_config 1 600 sample_chunk_env (sample_drng 0) (Some 0) 16
       = esdm_drng_get_loop sample_consts 1 600 sample_chunk_env 0
           ((sample_drng 0)\<lparr>fully_seeded := False\<rparr>) (min 16 SSIZE_MAX) 0 []"
  using get_demotes_before_generating [of "Some 0" 16 1 sample_config "sample_drng 0"
      sample_consts 600 sample_chunk_env]
  by (simp add: esdm_get_available_def atomic_read_def esdm_config_drng_max_wo_reseed_def
        sample_config_def sample_drng_def)

text \<open>
  While the manager is not available, a request with a buffer and a non-zero length
  returns \<^verbatim>\<open>-EOPNOTSUPP\<close> before the counter is compared: the instance stays fully
  seeded although its counter is past the limit, and nothing is generated.
\<close>

theorem get_unavailable_keeps_fully_seeded:
  "Some (0 :: nat) \<noteq> None
   \<and> (16 :: size_t) \<noteq> 0
   \<and> \<not> esdm_get_available 0
   \<and> requests_since_fully_seeded (sample_drng 0) > esdm_config_drng_max_wo_reseed sample_config
   \<and> fully_seeded (sample_drng 0)
   \<and> esdm_drng_get sample_consts sample_config 0 600 sample_chunk_env (sample_drng 0) (Some 0) 16
       = Some (- EOPNOTSUPP, sample_drng 0, [])"
  by (simp add: esdm_drng_get_def esdm_get_available_def atomic_read_def
        esdm_config_drng_max_wo_reseed_def sample_config_def)
     (simp add: sample_drng_def)

text \<open>
  A run of the model: 5000 bytes are asked from the sample instance, which is past
  the limit of the sample configuration. The loop makes two rounds, of 4096 and of
  904 bytes, without reseeding, and the instance ends demoted.
\<close>

lemma esdm_drng_get_sample_run:
  "map_option (\<lambda>(r, d, out). (r, fully_seeded d, requests d, length out))
     (esdm_drng_get sample_consts sample_config 1 600 sample_chunk_env (sample_drng 0)
        (Some 0) 5000)
   = Some (5000, False, 3998, 5000)"
  apply (simp add: esdm_drng_get_def esdm_get_available_def atomic_read_def atomic_read_u32_def
      esdm_config_drng_max_wo_reseed_def sample_config_def sample_drng_def SSIZE_MAX_def
      esdm_unset_fully_seeded_def)
  apply (subst esdm_drng_get_loop.simps)
  apply (simp add: sample_consts_def sample_chunk_env_def esdm_drng_must_reseed_def
      atomic_dec_and_test_def atomic_sub_and_test_def esdm_time_after_now_def
      esdm_time_after_def sample_cb_def Let_def)
  apply (subst esdm_drng_get_loop.simps)
  apply (simp add: sample_consts_def sample_chunk_env_def esdm_drng_must_reseed_def
      atomic_dec_and_test_def atomic_sub_and_test_def esdm_time_after_now_def
      esdm_time_after_def sample_cb_def Let_def)
  apply (subst esdm_drng_get_loop.simps)
  apply (simp add: sample_consts_def sample_chunk_env_def esdm_drng_must_reseed_def
      atomic_dec_and_test_def atomic_sub_and_test_def esdm_time_after_now_def
      esdm_time_after_def sample_cb_def Let_def)
  done

text \<open>
  Claim C10. Whatever the state of the system, available or not, \<^verbatim>\<open>esdm_drng_get\<close>
  called with a \<^verbatim>\<open>NULL\<close> buffer or with a length of 0 returns 0 and leaves the instance
  as it is: the test comes before the availability test, so such a call does not
  return \<^verbatim>\<open>-EOPNOTSUPP\<close>.
\<close>

theorem get_null_or_empty:
  assumes "outbuf = None \<or> outbuflen = 0"
  shows "esdm_drng_get K cfg avail max_time E d outbuf outbuflen = Some (0, d, [])
    \<and> esdm_drng_get K cfg avail max_time E d outbuf outbuflen \<noteq> Some (- EOPNOTSUPP, d, [])"
  using assms
  by (auto simp: esdm_drng_get_def EOPNOTSUPP_def)

theorem get_null_or_empty_witness:
  "((None :: nat option) = None \<or> (16 :: size_t) = 0)
   \<and> \<not> esdm_get_available 0
   \<and> esdm_drng_get sample_consts sample_config 0 600 sample_chunk_env (sample_drng 0) None 16
       = Some (0, sample_drng 0, [])"
  using get_null_or_empty [of None 16 sample_consts sample_config 0 600 sample_chunk_env
      "sample_drng 0"]
  by (simp add: esdm_get_available_def atomic_read_def)

subsection \<open>Initialisation of the manager\<close>

lemma mgr_initalize_alloc_failure:
  assumes "\<not> esdm_get_available (esdm_avail s)"
    and "CKINT_fails (fst (drng_alloc default_cb (drng (esdm_drng_init s))
            (ESDM_DRNG_SECURITY_STRENGTH_BYTES K)))"
  shows "fst (esdm_drng_mgr_initalize K default_cb node now s)
           = fst (drng_alloc default_cb (drng (esdm_drng_init s))
                (ESDM_DRNG_SECURITY_STRENGTH_BYTES K))
    \<and> \<not> esdm_get_available (esdm_avail (snd (esdm_drng_mgr_initalize K default_cb node now s)))"
  using assms
  by (auto simp: esdm_drng_mgr_initalize_def esdm_drng_alloc_common_def Let_def
        split: prod.splits)

text \<open>
  Claim C1, as the code has it. When \<^verbatim>\<open>esdm_drng_mgr_initalize\<close> runs on a manager
  that is not yet available, the allocation succeeds and the selftest of the hash
  or of the DRBG fails with a negative code, the function returns this code, which
  is not 0, and the availability flag is set: it was set before the selftests ran,
  and \<^verbatim>\<open>esdm_get_available()\<close> returns true after the call.
\<close>

theorem mgr_initalize_selftest_failure:
  assumes "\<not> esdm_get_available (esdm_avail s)"
    and "\<not> CKINT_fails (fst (drng_alloc default_cb (drng (esdm_drng_init s))
            (ESDM_DRNG_SECURITY_STRENGTH_BYTES K)))"
    and "esdm_drng_mgr_selftest (snd (esdm_drng_mgr_initalize K default_cb node now s)) node < 0"
  shows "fst (esdm_drng_mgr_initalize K default_cb node now s)
           = esdm_drng_mgr_selftest (snd (esdm_drng_mgr_initalize K default_cb node now s)) node
    \<and> fst (esdm_drng_mgr_initalize K default_cb node now s) \<noteq> 0
    \<and> esdm_get_available (esdm_avail (snd (esdm_drng_mgr_initalize K default_cb node now s)))"
  using assms
  by (auto simp: esdm_drng_mgr_initalize_def esdm_drng_alloc_common_def Let_def
        esdm_get_available_def atomic_read_def atomic_set_def split: prod.splits)

lemma sample_mgr_initalize:
  "esdm_drng_mgr_initalize sample_consts (sample_cb 0) 0 1234 (sample_mgr (Some r))
     = ((if r < 0 then r else 0),
        (sample_mgr (Some r))
          \<lparr>esdm_avail := 1,
           esdm_drng_init :=
             esdm_drng_reset sample_consts
               ((sample_drng 0)\<lparr>hash_cb := \<lparr>hash_selftest = Some r\<rparr>\<rparr>) 1234\<rparr>)"
  by (simp add: esdm_drng_mgr_initalize_def esdm_drng_alloc_common_def Let_def
        esdm_get_available_def atomic_read_def atomic_set_def sample_mgr_def sample_cb_def
        sample_drng_def sample_consts_def CKINT_fails_def ATOMIC_INIT_def esdm_drng_reset_def
        esdm_drng_mgr_selftest_def esdm_drng_node_instance_def esdm_drng_init_instance_def
        drng_at_def)

theorem mgr_initalize_selftest_failure_witness:
  "\<not> esdm_get_available (esdm_avail (sample_mgr (Some (- 14))))
   \<and> \<not> CKINT_fails (fst (drng_alloc (sample_cb 0)
           (drng (esdm_drng_init (sample_mgr (Some (- 14)))))
           (ESDM_DRNG_SECURITY_STRENGTH_BYTES sample_consts)))
   \<and> esdm_drng_mgr_selftest
        (snd (esdm_drng_mgr_initalize sample_consts (sample_cb 0) 0 1234
               (sample_mgr (Some (- 14))))) 0 < 0
   \<and> fst (esdm_drng_mgr_initalize sample_consts (sample_cb 0) 0 1234
            (sample_mgr (Some (- 14)))) = - 14
   \<and> esdm_get_available (esdm_avail
        (snd (esdm_drng_mgr_initalize sample_consts (sample_cb 0) 0 1234
               (sample_mgr (Some (- 14))))))"
proof -
  have pre: "\<not> esdm_get_available (esdm_avail (sample_mgr (Some (- 14))))"
    by (simp add: sample_mgr_def esdm_get_available_def atomic_read_def ATOMIC_INIT_def)
  have alloc: "\<not> CKINT_fails (fst (drng_alloc (sample_cb 0)
           (drng (esdm_drng_init (sample_mgr (Some (- 14)))))
           (ESDM_DRNG_SECURITY_STRENGTH_BYTES sample_consts)))"
    by (simp add: sample_cb_def CKINT_fails_def)
  have test: "esdm_drng_mgr_selftest
        (snd (esdm_drng_mgr_initalize sample_consts (sample_cb 0) 0 1234
               (sample_mgr (Some (- 14))))) 0 = - 14"
    unfolding sample_mgr_initalize
    by (simp add: esdm_drng_mgr_selftest_def esdm_drng_node_instance_def
          esdm_drng_init_instance_def drng_at_def sample_mgr_def esdm_drng_reset_def
          CKINT_fails_def)
  from test have neg: "esdm_drng_mgr_selftest
        (snd (esdm_drng_mgr_initalize sample_consts (sample_cb 0) 0 1234
               (sample_mgr (Some (- 14))))) 0 < 0"
    by simp
  from mgr_initalize_selftest_failure [OF pre alloc neg] pre alloc neg test
  show ?thesis by simp
qed

theorem mgr_initalize_selftest_failure_sets_avail:
  "\<not> esdm_get_available (esdm_avail (sample_mgr (Some (- 1))))
   \<and> hash_selftest (hash_cb (esdm_drng_init (sample_mgr (Some (- 1))))) = Some (- 1)
   \<and> fst (esdm_drng_mgr_initalize sample_consts (sample_cb 0) 0 1234
            (sample_mgr (Some (- 1)))) = - 1
   \<and> esdm_get_available (esdm_avail
        (snd (esdm_drng_mgr_initalize sample_consts (sample_cb 0) 0 1234
               (sample_mgr (Some (- 1))))))"
  by (simp add: sample_mgr_initalize)
     (simp add: sample_mgr_def esdm_get_available_def atomic_read_def ATOMIC_INIT_def)

subsection \<open>Forced reseeding\<close>

text \<open>
  The loop over the online nodes writes through the pointers of the slots. Setting
  the flag twice gives what setting it once gives, so that the instance behind a
  pointer ends with the flag set from \<^verbatim>\<open>fully_seeded\<close> exactly when some visited slot
  holds the pointer.
\<close>

lemma drng_at_modify:
  "drng_at (drng_modify p f s) q = (if q = p then f (drng_at s p) else drng_at s q)"
  by (cases p; cases q) (simp_all add: drng_at_def drng_modify_def)

lemma drng_at_atomic_update:
  "drng_at (s\<lparr>esdm_drng_atomic := a\<rparr>) p = drng_at s p"
  by (cases p) (simp_all add: drng_at_def)

lemma drng_modify_others:
  "esdm_avail (drng_modify p f s) = esdm_avail s"
  "esdm_drng_instances (drng_modify p f s) = esdm_drng_instances s"
  "esdm_drng_atomic (drng_modify p f s) = esdm_drng_atomic s"
  by (cases p; simp add: drng_modify_def)+

lemma drng_at_force_reseed_node:
  "drng_at (force_reseed_node arr node s) q
     = (if arr node = Some q then (drng_at s q)\<lparr>force_reseed := fully_seeded (drng_at s q)\<rparr>
        else drng_at s q)"
  by (auto simp: force_reseed_node_def drng_at_modify split: option.splits)

lemma force_reseed_node_others:
  "esdm_avail (force_reseed_node arr node s) = esdm_avail s"
  "esdm_drng_instances (force_reseed_node arr node s) = esdm_drng_instances s"
  "esdm_drng_atomic (force_reseed_node arr node s) = esdm_drng_atomic s"
  by (simp_all add: force_reseed_node_def drng_modify_others split: option.splits)

lemma fold_force_reseed_node:
  "drng_at (fold (force_reseed_node arr) [0..<n] s) q
     = (if Some q \<in> arr ` {0..<n}
        then (drng_at s q)\<lparr>force_reseed := fully_seeded (drng_at s q)\<rparr>
        else drng_at s q)"
proof (induction n)
  case 0
  show ?case by simp
next
  case (Suc n)
  have split: "arr ` {0..<Suc n} = insert (arr n) (arr ` {0..<n})"
    by (simp add: atLeast0_lessThan_Suc)
  have "drng_at (fold (force_reseed_node arr) [0..<Suc n] s) q
      = drng_at (force_reseed_node arr n (fold (force_reseed_node arr) [0..<n] s)) q"
    by simp
  also have "\<dots> = (if Some q \<in> arr ` {0..<Suc n}
        then (drng_at s q)\<lparr>force_reseed := fully_seeded (drng_at s q)\<rparr>
        else drng_at s q)"
    unfolding drng_at_force_reseed_node Suc split by auto
  finally show ?case .
qed

lemma fold_force_reseed_node_others:
  "esdm_avail (fold (force_reseed_node arr) [0..<n] s) = esdm_avail s
   \<and> esdm_drng_instances (fold (force_reseed_node arr) [0..<n] s) = esdm_drng_instances s
   \<and> esdm_drng_atomic (fold (force_reseed_node arr) [0..<n] s) = esdm_drng_atomic s"
  by (induction n) (simp_all add: force_reseed_node_others)

lemma force_reseed_all_nodes:
  assumes "esdm_drng_instances s = Some arr"
    and "requests_since_fully_seeded (esdm_drng_init s) \<le> ESDM_DRNG_RESEED_THRESH K"
  shows "esdm_drng_force_reseed K cfg online atomic_force_reseed s
      = (fold (force_reseed_node arr) [0..<unat (esdm_config_online_nodes cfg online)] s)
          \<lparr>esdm_drng_atomic := atomic_force_reseed (esdm_drng_atomic s)\<rparr>"
  using assms
  by (simp add: esdm_drng_force_reseed_def Let_def atomic_read_u32_def
        for_each_online_node_def not_less fold_force_reseed_node_others)

text \<open>
  Claim C2, as the code has it. When the per-node array exists and the initial DRNG
  is not past the reseed threshold (\<^verbatim>\<open>requests_since_fully_seeded\<close> of the initial
  DRNG is at most \<^verbatim>\<open>ESDM_DRNG_RESEED_THRESH\<close>, which 0 is), \<^verbatim>\<open>esdm_drng_force_reseed\<close>
  gives \<^verbatim>\<open>force_reseed\<close> the value of \<^verbatim>\<open>fully_seeded\<close> on the per-node DRNG of every
  online node that has one, so that the flag is true on the fully seeded ones only,
  leaves every other DRNG instance and the array as they are, and hands the atomic
  DRNG to \<^verbatim>\<open>esdm_drng_atomic_force_reseed\<close>.
\<close>

theorem force_reseed_per_node:
  assumes "esdm_drng_instances s = Some arr"
    and "requests_since_fully_seeded (esdm_drng_init s) \<le> ESDM_DRNG_RESEED_THRESH K"
  shows "drng_at (esdm_drng_force_reseed K cfg online atomic_force_reseed s) p
       = (if Some p \<in> arr ` {0..<unat (esdm_config_online_nodes cfg online)}
          then (drng_at s p)\<lparr>force_reseed := fully_seeded (drng_at s p)\<rparr>
          else drng_at s p)
    \<and> esdm_drng_instances (esdm_drng_force_reseed K cfg online atomic_force_reseed s)
       = Some arr
    \<and> esdm_drng_atomic (esdm_drng_force_reseed K cfg online atomic_force_reseed s)
       = atomic_force_reseed (esdm_drng_atomic s)"
proof -
  show ?thesis
    unfolding force_reseed_all_nodes [OF assms] drng_at_atomic_update
    using assms(1) by (simp add: fold_force_reseed_node fold_force_reseed_node_others)
qed

lemma sample_online_nodes:
  "unat (esdm_config_online_nodes sample_config 3) = 3"
  by (simp add: esdm_config_online_nodes_def esdm_config_max_nodes_def sample_config_def)

lemma sample_slots:
  "sample_nodes ` {0..<3} = {Some Ptr_init, Some (Ptr_node 1), None}"
proof -
  have "{0..<3::nat} = {0, 1, 2}"
    by auto
  then show ?thesis
    by (auto simp: sample_nodes_def)
qed

theorem force_reseed_per_node_witness:
  "esdm_drng_instances sample_node_mgr = Some sample_nodes
   \<and> requests_since_fully_seeded (esdm_drng_init sample_node_mgr)
       \<le> ESDM_DRNG_RESEED_THRESH sample_consts
   \<and> force_reseed (drng_at sample_node_mgr Ptr_init) = False
   \<and> force_reseed (drng_at
        (esdm_drng_force_reseed sample_consts sample_config 3 (\<lambda>a. a\<lparr>force_reseed := True\<rparr>)
           sample_node_mgr) Ptr_init) = True
   \<and> drng_at
        (esdm_drng_force_reseed sample_consts sample_config 3 (\<lambda>a. a\<lparr>force_reseed := True\<rparr>)
           sample_node_mgr) (Ptr_node 7) = drng_at sample_node_mgr (Ptr_node 7)
   \<and> force_reseed (esdm_drng_atomic
        (esdm_drng_force_reseed sample_consts sample_config 3 (\<lambda>a. a\<lparr>force_reseed := True\<rparr>)
           sample_node_mgr))"
proof -
  have inst: "esdm_drng_instances sample_node_mgr = Some sample_nodes"
    by (simp add: sample_node_mgr_def)
  have init: "requests_since_fully_seeded (esdm_drng_init sample_node_mgr)
       \<le> ESDM_DRNG_RESEED_THRESH sample_consts"
    by (simp add: sample_node_mgr_def sample_consts_def)
  have before: "force_reseed (drng_at sample_node_mgr Ptr_init) = False"
    and seeded: "fully_seeded (drng_at sample_node_mgr Ptr_init) = True"
    by (simp_all add: drng_at_def sample_node_mgr_def sample_drng_def)
  note after = force_reseed_per_node [OF inst init, of sample_config 3
      "\<lambda>a. a\<lparr>force_reseed := True\<rparr>"]
  show ?thesis
    using inst init before seeded after [of Ptr_init] after [of "Ptr_node 7"]
    by (simp add: sample_online_nodes sample_slots)
qed

theorem force_reseed_clears_flag_of_unseeded_node:
  "esdm_drng_instances sample_node_mgr \<noteq> None
   \<and> requests_since_fully_seeded (esdm_drng_init sample_node_mgr) = 0
   \<and> node_force_reseed sample_node_mgr 1 = Some True
   \<and> node_force_reseed
        (esdm_drng_force_reseed sample_consts sample_config 3 (\<lambda>a. a\<lparr>force_reseed := True\<rparr>)
           sample_node_mgr) 1 = Some False"
proof -
  let ?s = "esdm_drng_force_reseed sample_consts sample_config 3 (\<lambda>a. a\<lparr>force_reseed := True\<rparr>)
      sample_node_mgr"
  let ?s1 = "fold (force_reseed_node sample_nodes) [0..<3] sample_node_mgr"
  have init: "requests_since_fully_seeded (esdm_drng_init sample_node_mgr) = 0"
    by (simp add: sample_node_mgr_def)
  have before: "node_force_reseed sample_node_mgr 1 = Some True"
    by (simp add: node_force_reseed_def drng_at_def sample_node_mgr_def sample_nodes_def
          esdm_drng_reset_def)
  have inst: "esdm_drng_instances sample_node_mgr = Some sample_nodes"
    by (simp add: sample_node_mgr_def)
  have le: "requests_since_fully_seeded (esdm_drng_init sample_node_mgr)
       \<le> ESDM_DRNG_RESEED_THRESH sample_consts"
    by (simp add: sample_node_mgr_def sample_consts_def)
  have run: "?s = ?s1\<lparr>esdm_drng_atomic :=
      (esdm_drng_atomic sample_node_mgr)\<lparr>force_reseed := True\<rparr>\<rparr>"
    unfolding force_reseed_all_nodes [OF inst le] sample_online_nodes ..
  have slot: "esdm_drng_instances ?s = Some sample_nodes"
    unfolding run by (simp add: fold_force_reseed_node_others inst)
  have at: "drng_at ?s (Ptr_node 1) = drng_at ?s1 (Ptr_node 1)"
    unfolding run by (rule drng_at_atomic_update)
  have flag: "force_reseed (drng_at ?s (Ptr_node 1)) = False"
    unfolding at fold_force_reseed_node sample_slots
    by (simp add: drng_at_def sample_node_mgr_def esdm_drng_reset_def)
  have after: "node_force_reseed ?s 1 = Some False"
    using flag by (simp add: node_force_reseed_def slot sample_nodes_def)
  show ?thesis
    using init before after by (simp add: sample_node_mgr_def)
qed

subsection \<open>Seeding from the seed-work path\<close>

text \<open>
  Claim C9, as the code has it. After \<^verbatim>\<open>esdm_drng_seed_work_one\<close> for node \<open>n\<close> on an
  available manager, with a seed that the callback accepted, \<^verbatim>\<open>last_seeded\<close> is the
  time recorded by the injection plus \<open>n * 60\<close> (the product taken in \<^verbatim>\<open>uint32_t\<close>) when
  the instance is fully seeded afterwards, that is, when it was so before or the
  seed was a full one; when the instance is still not fully seeded, \<^verbatim>\<open>last_seeded\<close> is
  the time recorded by the injection, without the offset.
\<close>

theorem seed_work_one_last_seeded:
  assumes "esdm_get_available avail"
    and "drng d = Some st"
    and "0 \<le> fst (drng_seed (drng_cb d) st (esdm_fill_seed_buffer E (fully_seeded d)))"
  shows "last_seeded (esdm_drng_seed_work_one K avail E d node)
     = seed_time E
       + (if fully_seeded d
             \<or> esdm_fully_seeded_eb E (fully_seeded d) (esdm_fill_seed_buffer E (fully_seeded d))
          then uint (node * 60) else 0)"
  using assms
  by (auto simp: esdm_drng_seed_work_one_def esdm_drng_seed_def esdm_drng_seed_es_def
        esdm_drng_inject_def Let_def split: prod.splits)

theorem seed_work_one_last_seeded_witness:
  "esdm_get_available 1
   \<and> drng (esdm_drng_reset sample_consts (sample_drng 0) 1000) = Some 0
   \<and> 0 \<le> fst (drng_seed (drng_cb (esdm_drng_reset sample_consts (sample_drng 0) 1000)) 0
              (esdm_fill_seed_buffer (sample_seed_env True 2000)
                 (fully_seeded (esdm_drng_reset sample_consts (sample_drng 0) 1000))))
   \<and> last_seeded (esdm_drng_seed_work_one sample_consts 1 (sample_seed_env True 2000)
        (esdm_drng_reset sample_consts (sample_drng 0) 1000) 2) = 2120"
  using seed_work_one_last_seeded [of 1 "esdm_drng_reset sample_consts (sample_drng 0) 1000" 0
      "sample_seed_env True 2000" sample_consts 2]
  by (simp add: esdm_get_available_def atomic_read_def esdm_drng_reset_def sample_drng_def
        sample_cb_def sample_seed_env_def)

theorem seed_work_one_partial_seed_not_advanced:
  "esdm_get_available 1
   \<and> drng (esdm_drng_reset sample_consts (sample_drng 0) 1000) = Some 0
   \<and> fst (drng_seed (drng_cb (esdm_drng_reset sample_consts (sample_drng 0) 1000)) 0
          (esdm_fill_seed_buffer (sample_seed_env False 2000) False)) = 0
   \<and> last_seeded (esdm_drng_inject sample_consts
        (esdm_drng_reset sample_consts (sample_drng 0) 1000)
        (esdm_fill_seed_buffer (sample_seed_env False 2000) False) False 2000) = 2000
   \<and> last_seeded (esdm_drng_seed_work_one sample_consts 1 (sample_seed_env False 2000)
        (esdm_drng_reset sample_consts (sample_drng 0) 1000) 1) = 2000
   \<and> last_seeded (esdm_drng_seed_work_one sample_consts 1 (sample_seed_env False 2000)
        (esdm_drng_reset sample_consts (sample_drng 0) 1000) 1) \<noteq> 2000 + 1 * 60"
  by (simp add: esdm_drng_seed_work_one_def esdm_drng_seed_def esdm_drng_seed_es_def
        esdm_drng_inject_def Let_def esdm_get_available_def atomic_read_def atomic_set_def
        atomic_add_def esdm_drng_reset_def sample_drng_def sample_cb_def sample_seed_env_def
        sample_consts_def)

subsection \<open>The request counter\<close>

lemma requests_reset:
  "requests (esdm_drng_reset K d now) = ESDM_DRNG_RESEED_THRESH K"
  by (simp add: esdm_drng_reset_def atomic_set_def)

lemma requests_must_reseed:
  "requests (snd (esdm_drng_must_reseed max_time d now)) = requests d - 1"
  by (simp add: esdm_drng_must_reseed_def atomic_dec_and_test_def atomic_sub_and_test_def
        Let_def)

lemma requests_inject:
  "requests (esdm_drng_inject K d inbuf flag now)
     = (case drng d of
          None \<Rightarrow> requests d
        | Some st \<Rightarrow>
            if fst (drng_seed (drng_cb d) st inbuf) < 0 then requests d
            else ESDM_DRNG_RESEED_THRESH K)"
  by (auto simp: esdm_drng_inject_def Let_def atomic_set_def split: option.splits prod.splits)

lemma sint_dec:
  fixes x :: "32 word"
  assumes "- (2 ^ 31) < sint x"
  shows "sint (x - 1) = sint x - 1"
proof -
  have upper: "sint x < 2 ^ 31"
    using sint_lt [of x] by simp
  have "sint (x - 1) = signed_take_bit 31 (sint x - 1)"
    by (simp add: sint_word_ariths)
  also have "\<dots> = sint x - 1"
    using assms upper by (intro signed_take_bit_int_eq_self) simp_all
  finally show ?thesis .
qed

text \<open>
  One step keeps the counter between the threshold minus the number of steps made
  so far and the threshold, as long as the steps are too few for a wrap-around.
\<close>

lemma drng_step_bounds:
  assumes "sint (ESDM_DRNG_RESEED_THRESH K) - int k \<le> sint (requests d)"
    and "sint (requests d) \<le> sint (ESDM_DRNG_RESEED_THRESH K)"
    and "int k < 2 ^ 31 + sint (ESDM_DRNG_RESEED_THRESH K)"
  shows "sint (ESDM_DRNG_RESEED_THRESH K) - int (Suc k) \<le> sint (requests (drng_step K x d))
    \<and> sint (requests (drng_step K x d)) \<le> sint (ESDM_DRNG_RESEED_THRESH K)"
proof (cases x)
  case (Op_reset now)
  then show ?thesis by (simp add: requests_reset)
next
  case (Op_inject inbuf flag now)
  then show ?thesis
    using assms by (simp add: requests_inject split: option.splits)
next
  case (Op_must_reseed max_time now)
  have "- (2 ^ 31) < sint (requests d)"
    using assms by simp
  then have "sint (requests d - 1) = sint (requests d) - 1"
    by (rule sint_dec)
  with Op_must_reseed assms show ?thesis
    by (simp add: requests_must_reseed)
qed

lemma drng_run_bounds:
  assumes "sint (ESDM_DRNG_RESEED_THRESH K) - int k \<le> sint (requests d)"
    and "sint (requests d) \<le> sint (ESDM_DRNG_RESEED_THRESH K)"
    and "int k + int (length ops) \<le> 2 ^ 31 + sint (ESDM_DRNG_RESEED_THRESH K)"
  shows "sint (requests (drng_run K ops d)) \<le> sint (ESDM_DRNG_RESEED_THRESH K)"
  using assms
proof (induction ops arbitrary: d k)
  case Nil
  then show ?case by (simp add: drng_run_def)
next
  case (Cons x ops)
  from Cons.prems have small: "int k < 2 ^ 31 + sint (ESDM_DRNG_RESEED_THRESH K)"
    by simp
  note step = drng_step_bounds [OF Cons.prems(1) Cons.prems(2) small, of x]
  have "sint (requests (drng_run K ops (drng_step K x d))) \<le> sint (ESDM_DRNG_RESEED_THRESH K)"
  proof (rule Cons.IH [of "Suc k"])
    show "sint (ESDM_DRNG_RESEED_THRESH K) - int (Suc k) \<le> sint (requests (drng_step K x d))"
      using step by simp
    show "sint (requests (drng_step K x d)) \<le> sint (ESDM_DRNG_RESEED_THRESH K)"
      using step by simp
    show "int (Suc k) + int (length ops) \<le> 2 ^ 31 + sint (ESDM_DRNG_RESEED_THRESH K)"
      using Cons.prems(3) by simp
  qed
  then show ?case by (simp add: drng_run_def)
qed

lemma drng_run_must_reseed:
  "requests (drng_run K (replicate n (Op_must_reseed max_time now)) d) = requests d - of_nat n"
  by (induction n arbitrary: d) (simp_all add: drng_run_def requests_must_reseed)

lemma drng_run_append_Cons:
  "drng_run K (pre @ x # ops) d = drng_run K ops (drng_step K x (drng_run K pre d))"
  by (simp add: drng_run_def)

text \<open>
  From a state in which the counter is at the threshold, it stays at or below the
  threshold for the next \<open>2\<^sup>3\<^sup>1 + ESDM_DRNG_RESEED_THRESH\<close> operations.
\<close>

lemma drng_run_from_thresh:
  assumes "requests d = ESDM_DRNG_RESEED_THRESH K"
    and "int (length ops) \<le> 2 ^ 31 + sint (ESDM_DRNG_RESEED_THRESH K)"
  shows "requests (drng_run K ops d) \<le>s ESDM_DRNG_RESEED_THRESH K"
proof -
  have "sint (requests (drng_run K ops d)) \<le> sint (ESDM_DRNG_RESEED_THRESH K)"
    using assms by (intro drng_run_bounds [of K 0]) simp_all
  then show ?thesis
    by (simp add: word_sle_eq)
qed

lemma requests_inject_accepted:
  assumes "seed_accepted d inbuf"
  shows "requests (esdm_drng_inject K d inbuf flag now) = ESDM_DRNG_RESEED_THRESH K"
  using assms by (auto simp: seed_accepted_def requests_inject split: option.splits)

text \<open>
  Claim C7, as the code has it. After every sequence of the operations
  \<^verbatim>\<open>esdm_drng_reset\<close>, \<^verbatim>\<open>esdm_drng_inject\<close> and \<^verbatim>\<open>esdm_drng_must_reseed\<close> in which at most
  \<open>2\<^sup>3\<^sup>1 + ESDM_DRNG_RESEED_THRESH\<close> operations follow the last reset or successful
  seed, whatever came before it and however long, the signed counter \<^verbatim>\<open>requests\<close>
  does not exceed \<^verbatim>\<open>ESDM_DRNG_RESEED_THRESH\<close>; the reset of the starting state counts
  as a reset. A reset and a successful seed set the counter to the threshold, a
  failed or skipped seed leaves it, and the reseed test decrements it by one in
  32-bit arithmetic.
\<close>

theorem requests_never_exceeds_thresh:
  assumes "int (length ops) \<le> 2 ^ 31 + sint (ESDM_DRNG_RESEED_THRESH K)"
  shows "requests (drng_run K ops (esdm_drng_reset K d now)) \<le>s ESDM_DRNG_RESEED_THRESH K
    \<and> requests (drng_run K (pre @ Op_reset now # ops) d) \<le>s ESDM_DRNG_RESEED_THRESH K
    \<and> (seed_accepted (drng_run K pre d) inbuf \<longrightarrow>
         requests (drng_run K (pre @ Op_inject inbuf flag now # ops) d)
           \<le>s ESDM_DRNG_RESEED_THRESH K)
    \<and> requests (esdm_drng_reset K d' t) = ESDM_DRNG_RESEED_THRESH K
    \<and> requests (esdm_drng_inject K d' inbuf' flag' t)
        = (case drng d' of
             None \<Rightarrow> requests d'
           | Some st \<Rightarrow>
               if fst (drng_seed (drng_cb d') st inbuf') < 0 then requests d'
               else ESDM_DRNG_RESEED_THRESH K)
    \<and> requests (snd (esdm_drng_must_reseed max_time d' t)) = requests d' - 1"
proof -
  have start: "requests (drng_run K ops (esdm_drng_reset K d now))
      \<le>s ESDM_DRNG_RESEED_THRESH K"
    using assms by (intro drng_run_from_thresh) (simp_all add: requests_reset)
  have reset: "requests (drng_run K (pre @ Op_reset now # ops) d)
      \<le>s ESDM_DRNG_RESEED_THRESH K"
    unfolding drng_run_append_Cons
    using assms by (intro drng_run_from_thresh) (simp_all add: requests_reset)
  have seed: "requests (drng_run K (pre @ Op_inject inbuf flag now # ops) d)
      \<le>s ESDM_DRNG_RESEED_THRESH K" if "seed_accepted (drng_run K pre d) inbuf"
    unfolding drng_run_append_Cons
    using assms that by (intro drng_run_from_thresh) (simp_all add: requests_inject_accepted)
  show ?thesis
    using start reset seed
    by (simp add: requests_reset requests_inject requests_must_reseed)
qed

text \<open>
  An instance in use makes \<open>2\<^sup>3\<^sup>1 + 2\<^sup>2\<^sup>0 + 1\<close> reseed tests in a row, is then seeded
  successfully and makes one more reseed test: the counter is one below the
  threshold.
\<close>

theorem requests_never_exceeds_thresh_witness:
  "int (length [Op_must_reseed 600 1003])
     \<le> 2 ^ 31 + sint (ESDM_DRNG_RESEED_THRESH sample_consts)
   \<and> seed_accepted
        (drng_run sample_consts (replicate (2 ^ 31 + 1048576 + 1) (Op_must_reseed 600 1001))
           (sample_drng 0)) [1]
   \<and> requests (drng_run sample_consts
        (replicate (2 ^ 31 + 1048576 + 1) (Op_must_reseed 600 1001)
           @ Op_inject [1] True 1002 # [Op_must_reseed 600 1003])
        (sample_drng 0)) = 1048575
   \<and> requests (drng_run sample_consts
        (replicate (2 ^ 31 + 1048576 + 1) (Op_must_reseed 600 1001)
           @ Op_inject [1] True 1002 # [Op_must_reseed 600 1003])
        (sample_drng 0))
       \<le>s ESDM_DRNG_RESEED_THRESH sample_consts"
proof -
  let ?pre = "replicate (2 ^ 31 + 1048576 + 1) (Op_must_reseed 600 1001)"
  have len: "int (length [Op_must_reseed 600 1003])
      \<le> 2 ^ 31 + sint (ESDM_DRNG_RESEED_THRESH sample_consts)"
    by (simp add: sample_consts_def)
  have keep: "drng (drng_run K (replicate n (Op_must_reseed m t)) d) = drng d
      \<and> drng_cb (drng_run K (replicate n (Op_must_reseed m t)) d) = drng_cb d"
    for K :: esdm_consts and n m t and d :: "nat esdm_drng"
    by (induction n arbitrary: d)
       (simp_all add: drng_run_def esdm_drng_must_reseed_def atomic_dec_and_test_def
          atomic_sub_and_test_def)
  have acc: "seed_accepted (drng_run sample_consts ?pre (sample_drng 0)) [1]"
    by (simp add: seed_accepted_def keep [THEN conjunct1] keep [THEN conjunct2]
          sample_drng_def sample_cb_def)
  have step: "requests (drng_run K (pre @ Op_inject inbuf flag now # [Op_must_reseed m t]) d)
      = ESDM_DRNG_RESEED_THRESH K - 1" if "seed_accepted (drng_run K pre d) inbuf"
    for K pre inbuf flag now m t and d :: "nat esdm_drng"
    unfolding drng_run_append_Cons
    using that by (simp add: drng_run_def requests_must_reseed requests_inject_accepted)
  have val: "requests (drng_run sample_consts
        (?pre @ Op_inject [1] True 1002 # [Op_must_reseed 600 1003]) (sample_drng 0)) = 1048575"
    using step [OF acc, of True 1002 600 1003] by (simp add: sample_consts_def)
  note bound = requests_never_exceeds_thresh [OF len, THEN conjunct2, THEN conjunct2,
      THEN conjunct1]
  have le: "requests (drng_run sample_consts
        (?pre @ Op_inject [1] True 1002 # [Op_must_reseed 600 1003]) (sample_drng 0))
      \<le>s ESDM_DRNG_RESEED_THRESH sample_consts"
    by (rule bound [THEN mp, OF acc])
  from le acc len val show ?thesis by simp
qed

theorem requests_wraps_around:
  "\<not> requests (drng_run sample_consts (replicate (2 ^ 31 + 1048576 + 1) (Op_must_reseed 600 0))
         (esdm_drng_reset sample_consts (sample_drng 0) 0))
       \<le>s ESDM_DRNG_RESEED_THRESH sample_consts"
  by (simp add: drng_run_must_reseed requests_reset sample_consts_def word_sle_eq)


end
